theory Spec2Isabelle
  imports Main "HOL-Library.Char_ord" "HOL-Library.List_Lexorder"
begin

section \<open>JavaScript values\<close>

text \<open>
  The values that \<^verbatim>\<open>bodyParser.json\<close> and \<^verbatim>\<open>xml2js\<close> put into \<^verbatim>\<open>req.body\<close>, and that the
  handlers pass to \<^verbatim>\<open>res.json\<close> and \<^verbatim>\<open>js2xmlparser\<close>. Numbers are restricted to integers. An
  object is the list of its own properties in insertion order; the key lists are meant
  without repetition, and a lookup reads the first binding. \<^verbatim>\<open>undefined\<close> is not a value of
  this type: a property read returns an option, \<open>None\<close> standing for \<^verbatim>\<open>undefined\<close>.
\<close>

datatype jsval =
    JNull
  | JBool bool
  | JNum int
  | JStr string
  | JArr "jsval list"
  | JObj "(string \<times> jsval) list"

text \<open>
  \<^verbatim>\<open>v.k\<close> for a receiver that is not \<^verbatim>\<open>null\<close>. It is only used with the keys \<^verbatim>\<open>store\<close>,
  \<^verbatim>\<open>id\<close>, \<^verbatim>\<open>name\<close>, \<^verbatim>\<open>address\<close>, \<^verbatim>\<open>phone\<close> and \<^verbatim>\<open>email\<close>, none of which is a property of a
  string, a number, a boolean or an array. On \<^verbatim>\<open>null\<close> it gives \<open>None\<close>, which is what the
  null-safe field selection of express-validator does; the handlers, where a read of
  \<^verbatim>\<open>null\<close> throws, test for \<open>JNull\<close> themselves.
\<close>

fun jsprop :: "jsval \<Rightarrow> string \<Rightarrow> jsval option" where
  "jsprop (JObj kvs) k = map_of kvs k"
| "jsprop _ k = None"

text \<open>JavaScript truthiness.\<close>

fun truthy :: "jsval \<Rightarrow> bool" where
  "truthy JNull = False"
| "truthy (JBool b) = b"
| "truthy (JNum n) = (n \<noteq> 0)"
| "truthy (JStr s) = (s \<noteq> [])"
| "truthy (JArr xs) = True"
| "truthy (JObj kvs) = True"

text \<open>\<^verbatim>\<open>v && v.k\<close>, read as a condition.\<close>

definition truthy_prop :: "jsval \<Rightarrow> string \<Rightarrow> bool" where
  "truthy_prop v k = (truthy v \<and> (case jsprop v k of None \<Rightarrow> False | Some w \<Rightarrow> truthy w))"

text \<open>\<^verbatim>\<open>s.includes(t)\<close>.\<close>

fun starts_with :: "string \<Rightarrow> string \<Rightarrow> bool" where
  "starts_with s [] = True"
| "starts_with [] (c # t) = False"
| "starts_with (d # s) (c # t) = (d = c \<and> starts_with s t)"

fun js_includes :: "string \<Rightarrow> string \<Rightarrow> bool" where
  "js_includes [] t = (t = [])"
| "js_includes (d # s) t = (starts_with (d # s) t \<or> js_includes s t)"

text \<open>Decimal text of an integer, as \<^verbatim>\<open>String(n)\<close> writes it.\<close>

fun digits :: "nat \<Rightarrow> string" where
  "digits n = (if n < 10 then [''0123456789'' ! n]
               else digits (n div 10) @ [''0123456789'' ! (n mod 10)])"

declare digits.simps [simp del]

definition show_int :: "int \<Rightarrow> string" where
  "show_int i = (if i < 0 then CHR ''-'' # digits (nat (- i)) else digits (nat i))"

fun join_comma :: "string list \<Rightarrow> string" where
  "join_comma [] = []"
| "join_comma [s] = s"
| "join_comma (s # t # ss) = s @ CHR '','' # join_comma (t # ss)"

text \<open>
  \<^verbatim>\<open>String(v)\<close>: an array joins its elements with commas, writing nothing for a \<^verbatim>\<open>null\<close>
  element; a plain object is \<^verbatim>\<open>[object Object]\<close>.
\<close>

fun js_to_string :: "jsval \<Rightarrow> string" where
  "js_to_string JNull = ''null''"
| "js_to_string (JBool b) = (if b then ''true'' else ''false'')"
| "js_to_string (JNum n) = show_int n"
| "js_to_string (JStr s) = s"
| "js_to_string (JArr xs) = join_comma (map (\<lambda>x. if x = JNull then [] else js_to_string x) xs)"
| "js_to_string (JObj kvs) = ''[object Object]''"

section \<open>XML documents and the two XML libraries\<close>

text \<open>
  An element: its tag, its character data and its child elements. Attributes, comments
  and the interleaving of text with children are not represented; the documents that
  \<^verbatim>\<open>js2xmlparser\<close> writes for the values above have none.
\<close>

datatype xml = Node (tag: string) (chars: string) (kids: "xml list")

text \<open>
  The text that \<^verbatim>\<open>bodyParser.text\<close> delivers for an XML request, represented by what the
  parser makes of it: nothing but white space, not well-formed (with the parser's
  message), or a document.
\<close>

datatype xml_text = Blank | Malformed string | Doc xml

definition is_space :: "char \<Rightarrow> bool" where
  "is_space c = (c = CHR '' '' \<or> c = CHR 0x09 \<or> c = CHR 0x0A \<or> c = CHR 0x0D)"

text \<open>
  \<^verbatim>\<open>explicitArray: false\<close>: children are collected by tag, in the order of first
  occurrence; a tag that occurs once maps to the child's value, a repeated tag to the
  array of the values.
\<close>

function assemble :: "(string \<times> jsval) list \<Rightarrow> (string \<times> jsval) list" where
  "assemble [] = []"
| "assemble ((k, v) # kvs) =
     (let same = map snd (filter (\<lambda>kv. fst kv = k) kvs);
          others = filter (\<lambda>kv. fst kv \<noteq> k) kvs
      in (k, if same = [] then v else JArr (v # same)) # assemble others)"
  by pat_completeness auto
termination
  by (relation "measure length") (auto simp: less_Suc_eq_le)

text \<open>
  \<^verbatim>\<open>new xml2js.Parser({ explicitArray: false, explicitRoot: false }).parseStringPromise\<close>
  on a document. With \<^verbatim>\<open>explicitRoot: false\<close> the result is the value of the root element,
  whatever its tag. An element without children is its character data (the empty string
  for an empty element); an element with children is an object, with the character data
  under \<^verbatim>\<open>_\<close> unless it is white space. No value processor is configured, so every leaf
  is a string.
\<close>

fun xml2js_value :: "xml \<Rightarrow> jsval" where
  "xml2js_value (Node t cs ks) =
     (if ks = [] then JStr cs
      else JObj ((if list_all is_space cs then [] else [(''_'', JStr cs)])
                 @ assemble (map (\<lambda>k. (tag k, xml2js_value k)) ks)))"

text \<open>
  \<^verbatim>\<open>js2xmlparser.parse(root, data)\<close> with default options, for keys that are element names
  (none of the attribute, value or alias keys). A property becomes a child element named
  by its key; an array becomes one element per item, each under the array's own key; any
  other value becomes the element's text, \<^verbatim>\<open>String(value)\<close>.
\<close>

fun to_elements :: "string \<Rightarrow> jsval \<Rightarrow> xml list" where
  "to_elements k (JArr xs) = concat (map (to_elements k) xs)"
| "to_elements k (JObj kvs) = [Node k [] (concat (map (\<lambda>(k', v). to_elements k' v) kvs))]"
| "to_elements k v = [Node k (js_to_string v) []]"

fun js2xmlparser_parse :: "string \<Rightarrow> jsval \<Rightarrow> xml" where
  "js2xmlparser_parse root (JObj kvs) = Node root [] (concat (map (\<lambda>(k, v). to_elements k v) kvs))"
| "js2xmlparser_parse root (JArr xs) = Node root [] (concat (map (to_elements root) xs))"
| "js2xmlparser_parse root v = Node root (js_to_string v) []"

section \<open>Requests and responses\<close>

text \<open>
  An entry of \<^verbatim>\<open>errors.array()\<close>: the field and the message. The other properties of an
  entry (the offending value, the location) are not kept.
\<close>

datatype verror = FieldError string string

text \<open>
  What the handlers read of a request: the \<^verbatim>\<open>Accept\<close> header (\<^verbatim>\<open>req.headers.accept || ''\<close>),
  \<^verbatim>\<open>Number(req.params.id)\<close> and the body. \<open>id_param\<close> is \<open>Some n\<close> when the number is the
  integer \<open>n\<close> and \<open>None\<close> when it is \<^verbatim>\<open>NaN\<close> or not an integer, which no row id equals.
  The body is a \<open>raw_body\<close> before \<^verbatim>\<open>parseIfXml\<close> and a \<open>jsval\<close> after it: \<open>Parsed v\<close> when
  \<^verbatim>\<open>bodyParser.json\<close> has left the value \<open>v\<close> there (\<^verbatim>\<open>{}\<close> when it parsed nothing),
  \<open>XmlText t\<close> when the content type is \<^verbatim>\<open>application/xml\<close> or \<^verbatim>\<open>text/xml\<close> and
  \<^verbatim>\<open>bodyParser.text\<close> has left the text.
\<close>

datatype raw_body = Parsed jsval | XmlText xml_text

record 'b request =
  accept :: string
  id_param :: "int option"
  body :: 'b

text \<open>
  A response body: \<^verbatim>\<open>res.json(v)\<close>, \<^verbatim>\<open>res.json({ errors: errors.array() })\<close>,
  \<^verbatim>\<open>res.type('application/xml').send(doc)\<close>, or \<^verbatim>\<open>res.send(text)\<close>. A JSON body is kept as the
  value it encodes and an XML body as the document.
\<close>

datatype rbody = Json jsval | JsonErrors "verror list" | Xml xml | Plain string

record response =
  status :: nat
  rbody :: rbody

text \<open>What a handler does with a request: it sends a response, or throws.\<close>

datatype outcome = Sent response | Uncaught

definition json_error :: "nat \<Rightarrow> string \<Rightarrow> response" where
  "json_error code message = \<lparr>status = code, rbody = Json (JObj [(''error'', JStr message)])\<rparr>"

text \<open>\<^verbatim>\<open>req.body = v\<close>.\<close>

definition set_body :: "'a request \<Rightarrow> 'b \<Rightarrow> 'b request" where
  "set_body req v =
     \<lparr>accept = accept req, id_param = id_param req, body = v\<rparr>"

subsection \<open>parseIfXml\<close>

definition parseIfXml :: "raw_body request \<Rightarrow> response + jsval request" where
  "parseIfXml req =
     (case body req of
        XmlText Blank \<Rightarrow> Inr (set_body req (JObj []))
      | XmlText (Doc x) \<Rightarrow> Inr (set_body req (xml2js_value x))
      | XmlText (Malformed details) \<Rightarrow>
          Inl \<lparr>status = 400,
               rbody = Json (JObj [(''error'', JStr ''Invalid XML payload''),
                                   (''details'', JStr details)])\<rparr>
      | Parsed v \<Rightarrow> Inr (set_body req v))"

subsection \<open>sendResponse\<close>

definition wants_xml :: "string \<Rightarrow> bool" where
  "wants_xml a = (js_includes a ''application/xml'' \<or> js_includes a ''text/xml'')"

text \<open>
  \<^verbatim>\<open>Array.isArray(data) ? 'stores' : (data && data.id ? 'store' : 'response')\<close>; the data
  is \<open>None\<close> when it is \<^verbatim>\<open>undefined\<close>.
\<close>

definition rootName :: "jsval option \<Rightarrow> string" where
  "rootName data =
     (case data of
        Some (JArr xs) \<Rightarrow> ''stores''
      | Some v \<Rightarrow> if truthy_prop v ''id'' then ''store'' else ''response''
      | None \<Rightarrow> ''response'')"

text \<open>\<^verbatim>\<open>data || {}\<close>.\<close>

definition or_empty :: "jsval option \<Rightarrow> jsval" where
  "or_empty data = (case data of Some v \<Rightarrow> if truthy v then v else JObj [] | None \<Rightarrow> JObj [])"

text \<open>\<^verbatim>\<open>res.json(undefined)\<close> sends an empty body.\<close>

definition sendResponse :: "'b request \<Rightarrow> jsval option \<Rightarrow> nat \<Rightarrow> response" where
  "sendResponse req data code =
     (if wants_xml (accept req)
      then \<lparr>status = code, rbody = Xml (js2xmlparser_parse (rootName data) (or_empty data))\<rparr>
      else \<lparr>status = code, rbody = (case data of Some v \<Rightarrow> Json v | None \<Rightarrow> Plain [])\<rparr>)"

section \<open>express-validator\<close>

text \<open>
  The library's \<^verbatim>\<open>toString\<close>: the empty string for \<^verbatim>\<open>undefined\<close> and \<^verbatim>\<open>null\<close>,
  \<^verbatim>\<open>value.toString()\<close> for an object or an array, \<^verbatim>\<open>String(value)\<close> otherwise.
\<close>

fun ev_toString :: "jsval option \<Rightarrow> string" where
  "ev_toString None = []"
| "ev_toString (Some JNull) = []"
| "ev_toString (Some v) = js_to_string v"

text \<open>
  \<^verbatim>\<open>.notEmpty().withMessage(message)\<close> on a selected value: a standard validator runs on
  every item of an array value and once on any other value; an item fails when its
  string has length 0. The result is the list of errors added to the context.
\<close>

definition notEmpty :: "string \<Rightarrow> string \<Rightarrow> jsval option \<Rightarrow> verror list" where
  "notEmpty field message v =
     (let items = (case v of Some (JArr xs) \<Rightarrow> map Some xs | _ \<Rightarrow> [v])
      in map (\<lambda>i. FieldError field message) (filter (\<lambda>i. ev_toString i = []) items))"

text \<open>
  A validation chain is a middleware. When it runs it selects the field from
  \<^verbatim>\<open>req.body\<close> as the body is at that moment, validates it and appends its context to those
  already on the request; \<^verbatim>\<open>validationResult(req)\<close> later only collects the errors of
  the contexts. The contexts live under a key of their own on the request; here they are
  passed along next to it.
\<close>

definition body_notEmpty :: "string \<Rightarrow> string \<Rightarrow> jsval request \<Rightarrow> verror list \<Rightarrow> verror list" where
  "body_notEmpty field message req contexts =
     contexts @ notEmpty field message (jsprop (body req) field)"

text \<open>\<^verbatim>\<open>body(field).optional().notEmpty()\<close>: a field that is \<^verbatim>\<open>undefined\<close> is not validated.\<close>

definition body_optional_notEmpty ::
    "string \<Rightarrow> string \<Rightarrow> jsval request \<Rightarrow> verror list \<Rightarrow> verror list" where
  "body_optional_notEmpty field message req contexts =
     (case jsprop (body req) field of
        None \<Rightarrow> contexts
      | Some v \<Rightarrow> contexts @ notEmpty field message (Some v))"

section \<open>The stores table\<close>

text \<open>
  A row of \<^verbatim>\<open>stores\<close> (db.js). \<open>rowid\<close> is the column \<^verbatim>\<open>id INTEGER PRIMARY KEY AUTOINCREMENT\<close>;
  \<^verbatim>\<open>name\<close> and \<^verbatim>\<open>address\<close> are \<^verbatim>\<open>TEXT NOT NULL\<close>; \<^verbatim>\<open>phone\<close> and \<^verbatim>\<open>email\<close> are \<^verbatim>\<open>TEXT\<close>, \<open>None\<close>
  being \<^verbatim>\<open>NULL\<close>; the two timestamps hold the text of \<^verbatim>\<open>CURRENT_TIMESTAMP\<close>
  (\<^verbatim>\<open>YYYY-MM-DD HH:MM:SS\<close>), whose alphabetical order is the order of time.
\<close>

record store =
  rowid :: nat
  name :: string
  address :: string
  phone :: "string option"
  email :: "string option"
  created_at :: string
  updated_at :: string

text \<open>
  The table, in insertion order, and the largest id ever handed out (the table's entry
  in \<^verbatim>\<open>sqlite_sequence\<close>, 0 when there is none).
\<close>

record db =
  table :: "store list"
  seq :: nat

definition text_json :: "string option \<Rightarrow> jsval" where
  "text_json t = (case t of None \<Rightarrow> JNull | Some s \<Rightarrow> JStr s)"

text \<open>A row as \<^verbatim>\<open>db.get\<close> and \<^verbatim>\<open>db.all\<close> return it.\<close>

definition store_json :: "store \<Rightarrow> jsval" where
  "store_json r =
     JObj [(''id'', JNum (int (rowid r))),
           (''name'', JStr (name r)),
           (''address'', JStr (address r)),
           (''phone'', text_json (phone r)),
           (''email'', text_json (email r)),
           (''created_at'', JStr (created_at r)),
           (''updated_at'', JStr (updated_at r))]"

text \<open>
  What a \<^verbatim>\<open>TEXT\<close> column stores for a bound JavaScript value: \<^verbatim>\<open>NULL\<close> for \<^verbatim>\<open>undefined\<close> and
  \<^verbatim>\<open>null\<close>, a string as it is. What it stores for a number, a boolean, an object or an
  array is decided by the storage driver and the column's affinity, not by the program
  (the driver binds a number as an integer or as a double by its size, and the column
  turns either into text); it is the argument \<open>other\<close>, with \<open>None\<close> for \<^verbatim>\<open>NULL\<close>.
\<close>

fun sql_text :: "(jsval \<Rightarrow> string option) \<Rightarrow> jsval option \<Rightarrow> string option" where
  "sql_text other None = None"
| "sql_text other (Some JNull) = None"
| "sql_text other (Some (JStr s)) = Some s"
| "sql_text other (Some v) = other v"

text \<open>
  Every storage call takes a flag: the call reports an error (\<^verbatim>\<open>err\<close> is set in its
  callback) and changes nothing. \<open>None\<close> is the error.
\<close>

text \<open>\<^verbatim>\<open>SELECT * FROM stores ORDER BY id DESC\<close>.\<close>

definition db_all :: "bool \<Rightarrow> db \<Rightarrow> store list option" where
  "db_all fails d = (if fails then None else Some (rev (sort_key rowid (table d))))"

text \<open>\<^verbatim>\<open>SELECT * FROM stores WHERE id = ?\<close> through \<^verbatim>\<open>db.get\<close>: the first matching row.\<close>

definition matches :: "int option \<Rightarrow> store \<Rightarrow> bool" where
  "matches i r = (i = Some (int (rowid r)))"

definition db_get :: "bool \<Rightarrow> int option \<Rightarrow> db \<Rightarrow> store option option" where
  "db_get fails i d = (if fails then None else Some (find (matches i) (table d)))"

text \<open>The id that \<^verbatim>\<open>AUTOINCREMENT\<close> gives the next row.\<close>

definition next_id :: "db \<Rightarrow> nat" where
  "next_id d = Suc (fold max (map rowid (table d)) (seq d))"

text \<open>
  \<^verbatim>\<open>INSERT INTO stores (name, address, phone, email) VALUES (?, ?, ?, ?)\<close> at the time
  \<open>now\<close>: both timestamps take their default, the id is assigned. The statement fails on
  a \<^verbatim>\<open>NULL\<close> name or address. The result is \<^verbatim>\<open>this.lastID\<close> and the new state.
\<close>

definition db_insert ::
    "(jsval \<Rightarrow> string option) \<Rightarrow> bool \<Rightarrow> string \<Rightarrow>
      jsval option \<Rightarrow> jsval option \<Rightarrow> jsval option \<Rightarrow> jsval option \<Rightarrow> db
      \<Rightarrow> (nat \<times> db) option" where
  "db_insert other fails now nameV addressV phoneV emailV d =
     (if fails then None
      else case (sql_text other nameV, sql_text other addressV) of
             (Some n, Some a) \<Rightarrow>
               Some (next_id d,
                     \<lparr>table = table d @
                        [\<lparr>rowid = next_id d, name = n, address = a,
                          phone = sql_text other phoneV, email = sql_text other emailV,
                          created_at = now, updated_at = now\<rparr>],
                      seq = next_id d\<rparr>)
           | _ \<Rightarrow> None)"

text \<open>
  \<^verbatim>\<open>UPDATE stores SET name = ?, address = ?, phone = ?, email = ?, updated_at =
  CURRENT_TIMESTAMP WHERE id = ?\<close> at the time \<open>now\<close>. The statement fails when it would
  write a \<^verbatim>\<open>NULL\<close> name or address into a row.
\<close>

definition db_update ::
    "(jsval \<Rightarrow> string option) \<Rightarrow> bool \<Rightarrow> string \<Rightarrow>
      jsval \<Rightarrow> jsval \<Rightarrow> jsval \<Rightarrow> jsval \<Rightarrow> int option \<Rightarrow> db \<Rightarrow> db option" where
  "db_update other fails now nameV addressV phoneV emailV i d =
     (if fails then None
      else if \<not> list_ex (matches i) (table d) then Some d
      else case (sql_text other (Some nameV), sql_text other (Some addressV)) of
             (Some n, Some a) \<Rightarrow>
               Some (d\<lparr>table :=
                 map (\<lambda>r. if matches i r
                          then r\<lparr>name := n, address := a,
                                 phone := sql_text other (Some phoneV),
                                 email := sql_text other (Some emailV), updated_at := now\<rparr>
                          else r) (table d)\<rparr>)
           | _ \<Rightarrow> None)"

text \<open>\<^verbatim>\<open>DELETE FROM stores WHERE id = ?\<close>.\<close>

definition db_delete :: "bool \<Rightarrow> int option \<Rightarrow> db \<Rightarrow> db option" where
  "db_delete fails i d =
     (if fails then None else Some (d\<lparr>table := filter (\<lambda>r. \<not> matches i r) (table d)\<rparr>))"

section \<open>The routes\<close>

text \<open>
  What a request meets outside the program: which of its storage calls report an error
  (\<open>faults env k\<close> for the \<open>k\<close>-th call the handler makes, counted from 0), the text
  of \<^verbatim>\<open>CURRENT_TIMESTAMP\<close> while it is served, and the text that the storage driver and
  a \<^verbatim>\<open>TEXT\<close> column make of a bound value that is neither a string nor \<^verbatim>\<open>null\<close>.
\<close>

record env =
  faults :: "nat \<Rightarrow> bool"
  now :: string
  bound_text :: "jsval \<Rightarrow> string option"

definition no_faults :: "nat \<Rightarrow> bool" where
  "no_faults k = False"

text \<open>
  A request that binds strings and \<^verbatim>\<open>null\<close> only never asks for the text of another
  value; \<open>unbound\<close> stands for \<open>bound_text\<close> in such a request.
\<close>

definition unbound :: "jsval \<Rightarrow> string option" where
  "unbound v = None"

text \<open>\<^verbatim>\<open>let payload = req.body; if (payload && payload.store) payload = payload.store;\<close>\<close>

definition unwrap :: "jsval \<Rightarrow> jsval" where
  "unwrap payload =
     (if truthy payload
      then (case jsprop payload ''store'' of
              Some s \<Rightarrow> if truthy s then s else payload
            | None \<Rightarrow> payload)
      else payload)"

definition validationResult :: "verror list \<Rightarrow> verror list" where
  "validationResult contexts = contexts"

text \<open>Every route runs behind \<^verbatim>\<open>app.use(parseIfXml)\<close>.\<close>

definition behind_parseIfXml ::
    "(jsval request \<Rightarrow> db \<Rightarrow> outcome \<times> db) \<Rightarrow> raw_body request \<Rightarrow> db \<Rightarrow> outcome \<times> db" where
  "behind_parseIfXml handler req d =
     (case parseIfXml req of
        Inl r \<Rightarrow> (Sent r, d)
      | Inr req' \<Rightarrow> handler req' d)"

subsection \<open>GET /stores\<close>

definition get_stores_handler :: "env \<Rightarrow> jsval request \<Rightarrow> db \<Rightarrow> outcome \<times> db" where
  "get_stores_handler env req d =
     (case db_all (faults env 0) d of
        None \<Rightarrow> (Sent (json_error 500 ''Database error''), d)
      | Some rows \<Rightarrow>
          (Sent (sendResponse req (Some (JObj [(''store'', JArr (map store_json rows))])) 200), d))"

definition get_stores :: "env \<Rightarrow> raw_body request \<Rightarrow> db \<Rightarrow> outcome \<times> db" where
  "get_stores env = behind_parseIfXml (get_stores_handler env)"

subsection \<open>POST /stores\<close>

text \<open>
  The handler proper, entered with the contexts that the two validation chains have
  left. \<^verbatim>\<open>const { name, address, phone = null, email = null } = payload\<close> throws on
  \<^verbatim>\<open>null\<close>; a default replaces \<^verbatim>\<open>undefined\<close> only.
\<close>

definition post_stores_handler ::
    "env \<Rightarrow> jsval request \<Rightarrow> verror list \<Rightarrow> db \<Rightarrow> outcome \<times> db" where
  "post_stores_handler env req0 contexts d =
     (let payload = unwrap (body req0);
          req = req0\<lparr>body := payload\<rparr>;
          errors = validationResult contexts
      in if errors \<noteq> [] then (Sent \<lparr>status = 400, rbody = JsonErrors errors\<rparr>, d)
         else if payload = JNull then (Uncaught, d)
         else
           let nameV = jsprop payload ''name'';
               addressV = jsprop payload ''address'';
               phoneV = (case jsprop payload ''phone'' of None \<Rightarrow> Some JNull | Some v \<Rightarrow> Some v);
               emailV = (case jsprop payload ''email'' of None \<Rightarrow> Some JNull | Some v \<Rightarrow> Some v)
           in case db_insert (bound_text env) (faults env 0) (now env)
                     nameV addressV phoneV emailV d of
                None \<Rightarrow> (Sent (json_error 500 ''Failed to create store''), d)
              | Some (newId, d') \<Rightarrow>
                  (case db_get (faults env 1) (Some (int newId)) d' of
                     None \<Rightarrow> (Sent (json_error 500 ''DB fetch failed''), d')
                   | Some row \<Rightarrow>
                       (Sent (sendResponse req (map_option store_json row) 201), d')))"

definition post_stores :: "env \<Rightarrow> raw_body request \<Rightarrow> db \<Rightarrow> outcome \<times> db" where
  "post_stores env =
     behind_parseIfXml (\<lambda>req.
       post_stores_handler env req
         (body_notEmpty ''address'' ''address is required'' req
           (body_notEmpty ''name'' ''name is required'' req [])))"

subsection \<open>GET /stores/:id\<close>

definition get_store_handler :: "env \<Rightarrow> jsval request \<Rightarrow> db \<Rightarrow> outcome \<times> db" where
  "get_store_handler env req d =
     (case db_get (faults env 0) (id_param req) d of
        None \<Rightarrow> (Sent (json_error 500 ''Database error''), d)
      | Some None \<Rightarrow> (Sent (json_error 404 ''Store not found''), d)
      | Some (Some row) \<Rightarrow> (Sent (sendResponse req (Some (store_json row)) 200), d))"

definition get_store :: "env \<Rightarrow> raw_body request \<Rightarrow> db \<Rightarrow> outcome \<times> db" where
  "get_store env = behind_parseIfXml (get_store_handler env)"

subsection \<open>PUT /stores/:id\<close>

text \<open>
  The merge reads \<^verbatim>\<open>payload.name\<close> and its siblings, which throws when the payload is
  \<^verbatim>\<open>null\<close>; a property that is not \<^verbatim>\<open>undefined\<close> replaces the existing column.
\<close>

definition put_store_handler ::
    "env \<Rightarrow> jsval request \<Rightarrow> verror list \<Rightarrow> db \<Rightarrow> outcome \<times> db" where
  "put_store_handler env req0 contexts d =
     (let i = id_param req0;
          payload = unwrap (body req0);
          req = req0\<lparr>body := payload\<rparr>
      in case db_get (faults env 0) i d of
           None \<Rightarrow> (Sent (json_error 500 ''DB error''), d)
         | Some None \<Rightarrow> (Sent (json_error 404 ''Store not found''), d)
         | Some (Some existing) \<Rightarrow>
             let errors = validationResult contexts
             in if errors \<noteq> [] then (Sent \<lparr>status = 400, rbody = JsonErrors errors\<rparr>, d)
                else if payload = JNull then (Uncaught, d)
                else
                  let nameV = (case jsprop payload ''name'' of
                                 Some v \<Rightarrow> v | None \<Rightarrow> JStr (name existing));
                      addressV = (case jsprop payload ''address'' of
                                 Some v \<Rightarrow> v | None \<Rightarrow> JStr (address existing));
                      phoneV = (case jsprop payload ''phone'' of
                                 Some v \<Rightarrow> v | None \<Rightarrow> text_json (phone existing));
                      emailV = (case jsprop payload ''email'' of
                                 Some v \<Rightarrow> v | None \<Rightarrow> text_json (email existing))
                  in (case db_update (bound_text env) (faults env 1) (now env)
                            nameV addressV phoneV emailV i d of
                        None \<Rightarrow> (Sent (json_error 500 ''Update failed''), d)
                      | Some d' \<Rightarrow>
                          (case db_get (faults env 2) i d' of
                             None \<Rightarrow> (Sent (json_error 500 ''Fetch after update failed''), d')
                           | Some row \<Rightarrow>
                               (Sent (sendResponse req (map_option store_json row) 200), d'))))"

definition put_store :: "env \<Rightarrow> raw_body request \<Rightarrow> db \<Rightarrow> outcome \<times> db" where
  "put_store env =
     behind_parseIfXml (\<lambda>req.
       put_store_handler env req
         (body_optional_notEmpty ''address'' ''address cannot be empty'' req
           (body_optional_notEmpty ''name'' ''name cannot be empty'' req [])))"

subsection \<open>DELETE /stores/:id\<close>

definition delete_store_handler :: "env \<Rightarrow> jsval request \<Rightarrow> db \<Rightarrow> outcome \<times> db" where
  "delete_store_handler env req d =
     (case db_get (faults env 0) (id_param req) d of
        None \<Rightarrow> (Sent (json_error 500 ''DB error''), d)
      | Some None \<Rightarrow> (Sent (json_error 404 ''Store not found''), d)
      | Some (Some row) \<Rightarrow>
          (case db_delete (faults env 1) (id_param req) d of
             None \<Rightarrow> (Sent (json_error 500 ''Delete failed''), d)
           | Some d' \<Rightarrow>
               (Sent (sendResponse req (Some (JObj [(''message'', JStr ''Store deleted'')])) 200),
                d')))"

definition delete_store :: "env \<Rightarrow> raw_body request \<Rightarrow> db \<Rightarrow> outcome \<times> db" where
  "delete_store env = behind_parseIfXml (delete_store_handler env)"

section \<open>Reading a response back\<close>

text \<open>The response goes out as \<^verbatim>\<open>application/xml\<close>.\<close>

fun is_xml :: "rbody \<Rightarrow> bool" where
  "is_xml (Xml x) = True"
| "is_xml b = False"

text \<open>
  The request body that a response body becomes when a client sends it back as it is:
  JSON text is parsed by \<^verbatim>\<open>bodyParser.json\<close> into the value it encodes, XML text is left
  to \<^verbatim>\<open>parseIfXml\<close>.
\<close>

definition sent_back :: "rbody \<Rightarrow> raw_body option" where
  "sent_back b =
     (case b of
        Json v \<Rightarrow> Some (Parsed v)
      | Xml x \<Rightarrow> Some (XmlText (Doc x))
      | _ \<Rightarrow> None)"

text \<open>
  A row serialised by \<^verbatim>\<open>sendResponse\<close> for the \<^verbatim>\<open>Accept\<close> header \<open>a\<close>, sent back and
  normalised by \<^verbatim>\<open>parseIfXml\<close>.
\<close>

definition round_trip :: "string \<Rightarrow> store \<Rightarrow> jsval option" where
  "round_trip a r =
     (case sent_back (rbody (sendResponse \<lparr>accept = a, id_param = None, body = ()\<rparr>
                               (Some (store_json r)) 200)) of
        None \<Rightarrow> None
      | Some b \<Rightarrow>
          (case parseIfXml \<lparr>accept = a, id_param = None, body = b\<rparr> of
             Inl e \<Rightarrow> None
           | Inr req \<Rightarrow> Some (body req)))"

section \<open>Storage lemmas\<close>

lemma fold_max_ge: "(a::nat) \<le> fold max xs a"
  by (induction xs arbitrary: a) (auto intro: order_trans [OF max.cobounded2])

lemma fold_max_mem: "x \<in> set xs \<Longrightarrow> (x::nat) \<le> fold max xs a"
proof (induction xs arbitrary: a)
  case Nil
  then show ?case by simp
next
  case (Cons y ys)
  show ?case
  proof (cases "x = y")
    case True
    have "max y a \<le> fold max ys (max y a)" by (rule fold_max_ge)
    with True show ?thesis by simp
  next
    case False
    with Cons show ?thesis by simp
  qed
qed

lemma rowid_below_next: "r \<in> set (table d) \<Longrightarrow> rowid r < next_id d"
  unfolding next_id_def using fold_max_mem [of "rowid r" "map rowid (table d)" "seq d"] by auto

lemma find_none_fresh: "find (matches (Some (int (next_id d)))) (table d) = None"
proof -
  have "\<not> matches (Some (int (next_id d))) r" if "r \<in> set (table d)" for r
    using rowid_below_next [OF that] by (simp add: matches_def)
  then show ?thesis by (simp add: find_None_iff)
qed

lemma find_app: "find P (xs @ ys) = (case find P xs of None \<Rightarrow> find P ys | Some x \<Rightarrow> Some x)"
  by (induction xs) auto

lemma find_fresh:
  "rowid r = next_id d \<Longrightarrow> find (matches (Some (int (next_id d)))) (table d @ [r]) = Some r"
  by (simp add: find_app find_none_fresh matches_def)

lemma find_map_matches:
  assumes "\<And>r. rowid (f r) = rowid r"
  shows "find (matches i) (map f xs) = map_option f (find (matches i) xs)"
  using assms by (induction xs) (auto simp: matches_def)

lemma find_list_ex: "find P xs = Some x \<Longrightarrow> list_ex P xs"
  by (induction xs) (auto split: if_splits)

lemma sql_text_json: "sql_text f (Some (text_json t)) = t"
  by (cases t) (simp_all add: text_json_def)

text \<open>What a successful \<^verbatim>\<open>UPDATE\<close> leaves in the row that the lookup finds.\<close>

lemma db_update_row:
  assumes "db_update f fails t n a p e i d = Some d'"
    and "find (matches i) (table d) = Some old"
  shows "\<exists>n' a'. sql_text f (Some n) = Some n' \<and> sql_text f (Some a) = Some a' \<and>
           find (matches i) (table d') =
             Some (old\<lparr>name := n', address := a', phone := sql_text f (Some p),
                       email := sql_text f (Some e), updated_at := t\<rparr>)"
proof -
  from assms(2) have ex: "list_ex (matches i) (table d)" by (rule find_list_ex)
  from assms(2) have m: "matches i old" by (auto simp: find_Some_iff)
  from assms(1) ex obtain n' a' where
    n: "sql_text f (Some n) = Some n'" and a: "sql_text f (Some a) = Some a'" and
    d': "d' = d\<lparr>table := map (\<lambda>r. if matches i r
                          then r\<lparr>name := n', address := a', phone := sql_text f (Some p),
                                 email := sql_text f (Some e), updated_at := t\<rparr>
                          else r) (table d)\<rparr>"
    by (auto simp: db_update_def split: if_splits option.splits)
  have "find (matches i) (table d') = map_option (\<lambda>r. if matches i r
                          then r\<lparr>name := n', address := a', phone := sql_text f (Some p),
                                 email := sql_text f (Some e), updated_at := t\<rparr>
                          else r) (find (matches i) (table d))"
    unfolding d' by (simp add: find_map_matches)
  with assms(2) m n a show ?thesis by simp
qed

section \<open>Request lemmas\<close>

lemma parseIfXml_Parsed:
  "body req = Parsed v \<Longrightarrow> parseIfXml req = Inr (set_body req v)"
  by (simp add: parseIfXml_def)

lemma parseIfXml_id_param: "parseIfXml req = Inr req' \<Longrightarrow> id_param req' = id_param req"
  by (auto simp: parseIfXml_def set_body_def split: raw_body.splits xml_text.splits)

lemma wants_xml_application_xml: "wants_xml ''application/xml''"
  by (simp add: wants_xml_def)

lemma wants_xml_application_json: "\<not> wants_xml ''application/json''"
  by (simp add: wants_xml_def)

lemma status_sendResponse: "status (sendResponse req data code) = code"
  by (simp add: sendResponse_def)

lemma status_json_error: "status (json_error code m) = code"
  by (simp add: json_error_def)

section \<open>List\<close>

text \<open>The rows that the list query returns are the rows of the table, by descending id.\<close>

lemma db_all_descending:
  assumes "db_all False d = Some rows"
  shows "sorted (rev (map rowid rows)) \<and> set rows = set (table d) \<and>
         length rows = length (table d)"
proof -
  from assms have rows: "rows = rev (sort_key rowid (table d))"
    by (simp add: db_all_def)
  have "rev (map rowid rows) = map rowid (sort_key rowid (table d))"
    unfolding rows by (simp add: rev_map)
  then show ?thesis
    unfolding rows by simp
qed

text \<open>
  C4. The list route, asked for XML and met by no storage error, answers 200 with the
  rows by descending id, each under an element \<^verbatim>\<open>store\<close>. The handler passes the object
  \<^verbatim>\<open>{ store: rows }\<close> to \<^verbatim>\<open>sendResponse\<close>, which is not an array and has no \<^verbatim>\<open>id\<close>, so the
  root element of the document is \<^verbatim>\<open>response\<close>; the name \<^verbatim>\<open>stores\<close>, which \<^verbatim>\<open>sendResponse\<close>
  keeps for arrays, is not used.
\<close>

theorem list_root_is_response:
  "get_stores \<lparr>faults = no_faults, now = t, bound_text = b\<rparr>
     \<lparr>accept = ''application/xml'', id_param = i, body = Parsed v\<rparr> d =
   (Sent \<lparr>status = 200,
          rbody = Xml (Node ''response'' []
                    (concat (map (\<lambda>r. to_elements ''store'' (store_json r))
                                 (rev (sort_key rowid (table d))))))\<rparr>, d)"
  by (simp add: get_stores_def behind_parseIfXml_def parseIfXml_def set_body_def
      get_stores_handler_def db_all_def no_faults_def sendResponse_def
      wants_xml_application_xml rootName_def truthy_prop_def or_empty_def comp_def)

section \<open>Create\<close>

text \<open>
  C9. A create request with the JSON body \<^verbatim>\<open>{"name":"Acme","address":"1 Main St"}\<close>, answered
  in JSON and met by no storage error, succeeds with status 201. The body is the new row:
  an integer \<^verbatim>\<open>id\<close> (the next id of the table), the name and the address as sent, \<^verbatim>\<open>phone\<close>
  and \<^verbatim>\<open>email\<close> null, and both timestamps equal to the time of the insert. The row is
  appended to the table.
\<close>

theorem create_acme:
  assumes "body req = Parsed (JObj [(''name'', JStr ''Acme''), (''address'', JStr ''1 Main St'')])"
    and "\<not> wants_xml (accept req)"
    and "\<not> faults env 0" and "\<not> faults env 1"
  shows "post_stores env req d =
     (Sent \<lparr>status = 201,
            rbody = Json (JObj [(''id'', JNum (int (next_id d))),
                                (''name'', JStr ''Acme''),
                                (''address'', JStr ''1 Main St''),
                                (''phone'', JNull),
                                (''email'', JNull),
                                (''created_at'', JStr (now env)),
                                (''updated_at'', JStr (now env))])\<rparr>,
      \<lparr>table = table d @
         [\<lparr>rowid = next_id d, name = ''Acme'', address = ''1 Main St'', phone = None,
           email = None, created_at = now env, updated_at = now env\<rparr>],
       seq = next_id d\<rparr>)"
  using assms
  by (simp add: post_stores_def behind_parseIfXml_def parseIfXml_Parsed set_body_def
      post_stores_handler_def body_notEmpty_def notEmpty_def validationResult_def unwrap_def
      db_insert_def db_get_def find_fresh sendResponse_def store_json_def text_json_def)

theorem create_acme_witness:
  "post_stores \<lparr>faults = no_faults, now = ''2025-03-01 12:00:00'', bound_text = unbound\<rparr>
     \<lparr>accept = ''application/json'', id_param = None,
      body = Parsed (JObj [(''name'', JStr ''Acme''), (''address'', JStr ''1 Main St'')])\<rparr>
     \<lparr>table = [], seq = 0\<rparr> =
   (Sent \<lparr>status = 201,
          rbody = Json (JObj [(''id'', JNum 1),
                              (''name'', JStr ''Acme''),
                              (''address'', JStr ''1 Main St''),
                              (''phone'', JNull),
                              (''email'', JNull),
                              (''created_at'', JStr ''2025-03-01 12:00:00''),
                              (''updated_at'', JStr ''2025-03-01 12:00:00'')])\<rparr>,
    \<lparr>table = [\<lparr>rowid = 1, name = ''Acme'', address = ''1 Main St'', phone = None,
          email = None, created_at = ''2025-03-01 12:00:00'',
          updated_at = ''2025-03-01 12:00:00''\<rparr>], seq = 1\<rparr>)"
  using create_acme [of
      "\<lparr>accept = ''application/json'', id_param = None,
        body = Parsed (JObj [(''name'', JStr ''Acme''), (''address'', JStr ''1 Main St'')])\<rparr>"
      "\<lparr>faults = no_faults, now = ''2025-03-01 12:00:00'', bound_text = unbound\<rparr>"
      "\<lparr>table = [], seq = 0\<rparr>"]
  by (simp add: wants_xml_application_json no_faults_def next_id_def)

text \<open>
  C1. The two validation chains of the create route run as middleware before the
  handler, on the body as \<^verbatim>\<open>parseIfXml\<close> left it. The handler unwraps a \<^verbatim>\<open>store\<close> field and
  assigns the result to \<^verbatim>\<open>req.body\<close> only afterwards, and \<^verbatim>\<open>validationResult\<close> collects what
  the chains found. So a create whose body holds non-empty \<^verbatim>\<open>name\<close> and \<^verbatim>\<open>address\<close> inside a
  \<^verbatim>\<open>store\<close> field, as in \<^verbatim>\<open>{"store":{"name":"X","address":"Y"}}\<close>, is answered 400 with both
  fields reported as required, and nothing is stored.
\<close>

theorem envelope_create_rejected:
  "post_stores env
     \<lparr>accept = a, id_param = i,
      body = Parsed (JObj [(''store'', JObj [(''name'', JStr ''X''), (''address'', JStr ''Y'')])])\<rparr>
     d =
   (Sent \<lparr>status = 400,
          rbody = JsonErrors [FieldError ''name'' ''name is required'',
                              FieldError ''address'' ''address is required'']\<rparr>, d)"
  by (simp add: post_stores_def behind_parseIfXml_def parseIfXml_def set_body_def
      post_stores_handler_def body_notEmpty_def notEmpty_def validationResult_def unwrap_def)

text \<open>
  The same fields under an XML root element \<^verbatim>\<open>store\<close> are accepted: the parser drops the
  root, so the body that the chains see has no \<^verbatim>\<open>store\<close> field at all.
\<close>

lemma xml_root_store_created:
  "post_stores \<lparr>faults = no_faults, now = ''2025-03-01 12:00:00'', bound_text = unbound\<rparr>
     \<lparr>accept = [], id_param = None,
      body = XmlText (Doc (Node ''store'' []
               [Node ''name'' ''Acme'' [], Node ''address'' ''1 Main St'' []]))\<rparr>
     \<lparr>table = [], seq = 0\<rparr> =
   (Sent \<lparr>status = 201,
          rbody = Json (JObj [(''id'', JNum 1),
                              (''name'', JStr ''Acme''),
                              (''address'', JStr ''1 Main St''),
                              (''phone'', JNull),
                              (''email'', JNull),
                              (''created_at'', JStr ''2025-03-01 12:00:00''),
                              (''updated_at'', JStr ''2025-03-01 12:00:00'')])\<rparr>,
    \<lparr>table = [\<lparr>rowid = 1, name = ''Acme'', address = ''1 Main St'', phone = None,
          email = None, created_at = ''2025-03-01 12:00:00'',
          updated_at = ''2025-03-01 12:00:00''\<rparr>], seq = 1\<rparr>)"
  by (simp add: post_stores_def behind_parseIfXml_def parseIfXml_def set_body_def
      post_stores_handler_def body_notEmpty_def notEmpty_def validationResult_def unwrap_def
      db_insert_def db_get_def next_id_def no_faults_def matches_def sendResponse_def
      wants_xml_def store_json_def text_json_def)

section \<open>Get by id\<close>

text \<open>
  C6. A get-by-id whose id matches no row is answered 404 with the JSON body
  \<^verbatim>\<open>{"error":"Store not found"}\<close>, whatever the \<^verbatim>\<open>Accept\<close> header asks for: the handler
  sends the error with \<^verbatim>\<open>res.json\<close> and does not go through \<^verbatim>\<open>sendResponse\<close>. The request
  is any that \<^verbatim>\<open>parseIfXml\<close> lets through, and the lookup meets no storage error.
\<close>

theorem missing_store_answer:
  assumes "parseIfXml req = Inr req'"
    and "\<not> faults env 0"
    and "find (matches (id_param req)) (table d) = None"
  shows "get_store env req d =
     (Sent \<lparr>status = 404, rbody = Json (JObj [(''error'', JStr ''Store not found'')])\<rparr>, d)"
proof -
  have "id_param req' = id_param req"
    using assms(1) by (rule parseIfXml_id_param)
  then show ?thesis
    using assms
    by (simp add: get_store_def behind_parseIfXml_def get_store_handler_def db_get_def
        json_error_def)
qed

theorem missing_store_answer_witness:
  "get_store \<lparr>faults = no_faults, now = ''2025-03-01 12:00:00'', bound_text = unbound\<rparr>
     \<lparr>accept = ''application/xml'', id_param = Some 9999, body = Parsed (JObj [])\<rparr>
     \<lparr>table = [\<lparr>rowid = 1, name = ''Acme'', address = ''1 Main St'', phone = None,
          email = None, created_at = ''2025-03-01 12:00:00'',
          updated_at = ''2025-03-01 12:00:00''\<rparr>], seq = 1\<rparr> =
   (Sent \<lparr>status = 404, rbody = Json (JObj [(''error'', JStr ''Store not found'')])\<rparr>,
    \<lparr>table = [\<lparr>rowid = 1, name = ''Acme'', address = ''1 Main St'', phone = None,
          email = None, created_at = ''2025-03-01 12:00:00'',
          updated_at = ''2025-03-01 12:00:00''\<rparr>], seq = 1\<rparr>)"
  using missing_store_answer [of
      "\<lparr>accept = ''application/xml'', id_param = Some 9999, body = Parsed (JObj [])\<rparr>"
      "\<lparr>accept = ''application/xml'', id_param = Some 9999, body = JObj []\<rparr>"
      "\<lparr>faults = no_faults, now = ''2025-03-01 12:00:00'', bound_text = unbound\<rparr>"
      "\<lparr>table = [\<lparr>rowid = 1, name = ''Acme'', address = ''1 Main St'', phone = None,
          email = None, created_at = ''2025-03-01 12:00:00'',
          updated_at = ''2025-03-01 12:00:00''\<rparr>], seq = 1\<rparr>"]
  by (simp add: parseIfXml_def set_body_def no_faults_def matches_def)

text \<open>
  \<^verbatim>\<open>GET /stores/9999\<close> with \<^verbatim>\<open>Accept: application/xml\<close> on a table without that row: the
  answer is not a 404 with an XML body.
\<close>

theorem missing_store_xml_counterexample:
  "\<not> (case fst (get_store \<lparr>faults = no_faults, now = ''2025-03-01 12:00:00'', bound_text = unbound\<rparr>
                  \<lparr>accept = ''application/xml'', id_param = Some 9999, body = Parsed (JObj [])\<rparr>
                  \<lparr>table = [\<lparr>rowid = 1, name = ''Acme'', address = ''1 Main St'', phone = None,
          email = None, created_at = ''2025-03-01 12:00:00'',
          updated_at = ''2025-03-01 12:00:00''\<rparr>], seq = 1\<rparr>) of
        Sent r \<Rightarrow> status r = 404 \<and> is_xml (rbody r)
      | Uncaught \<Rightarrow> False)"
  by (simp add: get_store_def behind_parseIfXml_def parseIfXml_def set_body_def
      get_store_handler_def db_get_def no_faults_def json_error_def matches_def)

section \<open>Update\<close>

text \<open>
  C7. An update whose id matches no row is answered 404 \<^verbatim>\<open>Store not found\<close>, whatever its
  payload: the handler looks the row up before it reads the validation result, so a
  payload that also breaks a field rule (an empty \<^verbatim>\<open>name\<close>, say) is still reported as not
  found. The payload is any that \<^verbatim>\<open>parseIfXml\<close> lets through, and the lookup meets no
  storage error.
\<close>

theorem update_missing_row:
  assumes "parseIfXml req = Inr req'"
    and "\<not> faults env 0"
    and "find (matches (id_param req)) (table d) = None"
  shows "put_store env req d = (Sent (json_error 404 ''Store not found''), d)"
proof -
  have "id_param req' = id_param req"
    using assms(1) by (rule parseIfXml_id_param)
  then show ?thesis
    using assms
    by (simp add: put_store_def behind_parseIfXml_def put_store_handler_def db_get_def Let_def)
qed

theorem update_missing_row_witness:
  "body_optional_notEmpty ''name'' ''name cannot be empty''
     \<lparr>accept = [], id_param = Some 9999, body = JObj [(''name'', JStr [])]\<rparr> [] \<noteq> []
   \<and> put_store \<lparr>faults = no_faults, now = ''2025-03-01 12:00:00'', bound_text = unbound\<rparr>
       \<lparr>accept = [], id_param = Some 9999, body = Parsed (JObj [(''name'', JStr [])])\<rparr>
       \<lparr>table = [], seq = 0\<rparr> =
     (Sent (json_error 404 ''Store not found''), \<lparr>table = [], seq = 0\<rparr>)"
  using update_missing_row [of
      "\<lparr>accept = [], id_param = Some 9999, body = Parsed (JObj [(''name'', JStr [])])\<rparr>"
      "\<lparr>accept = [], id_param = Some 9999, body = JObj [(''name'', JStr [])]\<rparr>"
      "\<lparr>faults = no_faults, now = ''2025-03-01 12:00:00'', bound_text = unbound\<rparr>"
      "\<lparr>table = [], seq = 0\<rparr>"]
  by (simp add: parseIfXml_def set_body_def no_faults_def body_optional_notEmpty_def notEmpty_def)

text \<open>
  An update that is answered 200 has found its row, and the \<^verbatim>\<open>UPDATE\<close> statement has
  written the merge of the payload with that row.
\<close>

lemma put_handler_200:
  assumes "put_store_handler env req cs d = (Sent r, d')" and "status r = 200"
  shows "\<exists>old. find (matches (id_param req)) (table d) = Some old \<and>
      db_update (bound_text env) (faults env 1) (now env)
        (case jsprop (unwrap (body req)) ''name'' of Some v \<Rightarrow> v | None \<Rightarrow> JStr (name old))
        (case jsprop (unwrap (body req)) ''address'' of Some v \<Rightarrow> v | None \<Rightarrow> JStr (address old))
        (case jsprop (unwrap (body req)) ''phone'' of Some v \<Rightarrow> v | None \<Rightarrow> text_json (phone old))
        (case jsprop (unwrap (body req)) ''email'' of Some v \<Rightarrow> v | None \<Rightarrow> text_json (email old))
        (id_param req) d = Some d'"
  using assms
  by (auto simp: put_store_handler_def Let_def db_get_def status_sendResponse status_json_error
      split: option.splits if_splits)

lemma put_store_merged:
  assumes "put_store env req d = (Sent r, d')" and "status r = 200"
    and "parseIfXml req = Inr req'"
    and "find (matches (id_param req)) (table d) = Some old"
  shows "\<exists>new. find (matches (id_param req)) (table d') = Some new \<and>
           rowid new = rowid old \<and> created_at new = created_at old \<and>
           updated_at new = now env \<and>
           Some (name new) = (case jsprop (unwrap (body req')) ''name'' of
                                None \<Rightarrow> Some (name old) | Some v \<Rightarrow> sql_text (bound_text env) (Some v)) \<and>
           Some (address new) = (case jsprop (unwrap (body req')) ''address'' of
                                None \<Rightarrow> Some (address old) | Some v \<Rightarrow> sql_text (bound_text env) (Some v)) \<and>
           phone new = (case jsprop (unwrap (body req')) ''phone'' of
                                None \<Rightarrow> phone old | Some v \<Rightarrow> sql_text (bound_text env) (Some v)) \<and>
           email new = (case jsprop (unwrap (body req')) ''email'' of
                                None \<Rightarrow> email old | Some v \<Rightarrow> sql_text (bound_text env) (Some v))"
proof -
  have i: "id_param req' = id_param req" using assms(3) by (rule parseIfXml_id_param)
  from assms(1,3) obtain cs where h: "put_store_handler env req' cs d = (Sent r, d')"
    by (auto simp: put_store_def behind_parseIfXml_def)
  from put_handler_200 [OF h assms(2)] assms(4) i
  have u: "db_update (bound_text env) (faults env 1) (now env)
        (case jsprop (unwrap (body req')) ''name'' of Some v \<Rightarrow> v | None \<Rightarrow> JStr (name old))
        (case jsprop (unwrap (body req')) ''address'' of Some v \<Rightarrow> v | None \<Rightarrow> JStr (address old))
        (case jsprop (unwrap (body req')) ''phone'' of Some v \<Rightarrow> v | None \<Rightarrow> text_json (phone old))
        (case jsprop (unwrap (body req')) ''email'' of Some v \<Rightarrow> v | None \<Rightarrow> text_json (email old))
        (id_param req) d = Some d'"
    by auto
  from db_update_row [OF u assms(4)] show ?thesis
    by (auto simp: sql_text_json split: option.splits)
qed

text \<open>
  C8. After an update that is answered 200, the row it addressed has the same \<^verbatim>\<open>id\<close> and
  \<^verbatim>\<open>created_at\<close> as before; each of \<^verbatim>\<open>name\<close>, \<^verbatim>\<open>address\<close>, \<^verbatim>\<open>phone\<close> and \<^verbatim>\<open>email\<close> that the
  unwrapped payload leaves out keeps its value, and each that the payload holds takes
  the supplied value as the column stores it (a string as it is, \<^verbatim>\<open>null\<close> as \<^verbatim>\<open>NULL\<close>, any
  other value as the text that the storage driver makes of it); \<^verbatim>\<open>updated_at\<close> is the
  storage clock's time of the update.
\<close>

theorem update_merge:
  assumes "put_store env req d = (Sent r, d')" and "status r = 200"
    and "parseIfXml req = Inr req'"
    and "find (matches (id_param req)) (table d) = Some old"
  shows "\<exists>new. find (matches (id_param req)) (table d') = Some new \<and>
           rowid new = rowid old \<and> created_at new = created_at old \<and>
           updated_at new = now env \<and>
           Some (name new) = (case jsprop (unwrap (body req')) ''name'' of
                                None \<Rightarrow> Some (name old) | Some v \<Rightarrow> sql_text (bound_text env) (Some v)) \<and>
           Some (address new) = (case jsprop (unwrap (body req')) ''address'' of
                                None \<Rightarrow> Some (address old) | Some v \<Rightarrow> sql_text (bound_text env) (Some v)) \<and>
           phone new = (case jsprop (unwrap (body req')) ''phone'' of
                                None \<Rightarrow> phone old | Some v \<Rightarrow> sql_text (bound_text env) (Some v)) \<and>
           email new = (case jsprop (unwrap (body req')) ''email'' of
                                None \<Rightarrow> email old | Some v \<Rightarrow> sql_text (bound_text env) (Some v))"
  using assms by (rule put_store_merged)

text \<open>
  \<^verbatim>\<open>PUT /stores/1\<close> with the XML body \<^verbatim>\<open><store><phone>555-1234</phone></store>\<close>, five
  seconds after the row was created: the update is answered 200 with the merged row, and
  in the table it leaves, the row has the new phone and time and is otherwise as before.
\<close>

theorem update_merge_witness:
  "put_store \<lparr>faults = no_faults, now = ''2025-03-01 12:00:05'', bound_text = unbound\<rparr>
     \<lparr>accept = [], id_param = Some 1,
       body = XmlText (Doc (Node ''store'' [] [Node ''phone'' ''555-1234'' []]))\<rparr>
     \<lparr>table = [\<lparr>rowid = 1, name = ''Acme'', address = ''1 Main St'', phone = None,
                email = None, created_at = ''2025-03-01 12:00:00'',
                updated_at = ''2025-03-01 12:00:00''\<rparr>], seq = 1\<rparr> =
   (Sent \<lparr>status = 200,
            rbody = Json (JObj [(''id'', JNum 1),
                         (''name'', JStr ''Acme''),
                         (''address'', JStr ''1 Main St''),
                         (''phone'', JStr ''555-1234''),
                         (''email'', JNull),
                         (''created_at'', JStr ''2025-03-01 12:00:00''),
                         (''updated_at'', JStr ''2025-03-01 12:00:05'')])\<rparr>,
    \<lparr>table = [\<lparr>rowid = 1, name = ''Acme'', address = ''1 Main St'', phone = Some ''555-1234'',
                email = None, created_at = ''2025-03-01 12:00:00'',
                updated_at = ''2025-03-01 12:00:05''\<rparr>], seq = 1\<rparr>)
   \<and> (\<exists>new.
        find (matches (Some 1))
          (table (snd (put_store \<lparr>faults = no_faults, now = ''2025-03-01 12:00:05'', bound_text = unbound\<rparr>
             \<lparr>accept = [], id_param = Some 1,
       body = XmlText (Doc (Node ''store'' [] [Node ''phone'' ''555-1234'' []]))\<rparr>
             \<lparr>table = [\<lparr>rowid = 1, name = ''Acme'', address = ''1 Main St'', phone = None,
                email = None, created_at = ''2025-03-01 12:00:00'',
                updated_at = ''2025-03-01 12:00:00''\<rparr>], seq = 1\<rparr>))) = Some new \<and>
        rowid new = 1 \<and> created_at new = ''2025-03-01 12:00:00'' \<and>
        updated_at new = ''2025-03-01 12:00:05'' \<and>
        name new = ''Acme'' \<and> address new = ''1 Main St'' \<and>
        phone new = Some ''555-1234'' \<and> email new = None)"
proof -
  have e: "put_store \<lparr>faults = no_faults, now = ''2025-03-01 12:00:05'', bound_text = unbound\<rparr>
     \<lparr>accept = [], id_param = Some 1,
       body = XmlText (Doc (Node ''store'' [] [Node ''phone'' ''555-1234'' []]))\<rparr>
     \<lparr>table = [\<lparr>rowid = 1, name = ''Acme'', address = ''1 Main St'', phone = None,
                email = None, created_at = ''2025-03-01 12:00:00'',
                updated_at = ''2025-03-01 12:00:00''\<rparr>], seq = 1\<rparr> =
   (Sent \<lparr>status = 200,
            rbody = Json (JObj [(''id'', JNum 1),
                         (''name'', JStr ''Acme''),
                         (''address'', JStr ''1 Main St''),
                         (''phone'', JStr ''555-1234''),
                         (''email'', JNull),
                         (''created_at'', JStr ''2025-03-01 12:00:00''),
                         (''updated_at'', JStr ''2025-03-01 12:00:05'')])\<rparr>,
    \<lparr>table = [\<lparr>rowid = 1, name = ''Acme'', address = ''1 Main St'', phone = Some ''555-1234'',
                email = None, created_at = ''2025-03-01 12:00:00'',
                updated_at = ''2025-03-01 12:00:05''\<rparr>], seq = 1\<rparr>)"
    by (simp add: put_store_def behind_parseIfXml_def parseIfXml_def set_body_def
        put_store_handler_def body_optional_notEmpty_def notEmpty_def validationResult_def
        unwrap_def db_update_def db_get_def no_faults_def matches_def sendResponse_def
        wants_xml_def store_json_def text_json_def json_error_def)
  from update_merge [OF e, of
      "\<lparr>accept = [], id_param = Some 1, body = JObj [(''phone'', JStr ''555-1234'')]\<rparr>"
      "\<lparr>rowid = 1, name = ''Acme'', address = ''1 Main St'', phone = None,
          email = None, created_at = ''2025-03-01 12:00:00'',
          updated_at = ''2025-03-01 12:00:00''\<rparr>"] e
  show ?thesis
    by (simp add: parseIfXml_def set_body_def matches_def unwrap_def)
qed

text \<open>
  The same update within the second of the row's last write: it succeeds, and
  \<^verbatim>\<open>updated_at\<close> is not greater than before.
\<close>

theorem same_second_update_counterexample:
  "put_store \<lparr>faults = no_faults, now = ''2025-03-01 12:00:00'', bound_text = unbound\<rparr>
     \<lparr>accept = [], id_param = Some 1,
      body = Parsed (JObj [(''phone'', JStr ''555-1234'')])\<rparr>
     \<lparr>table = [\<lparr>rowid = 1, name = ''Acme'', address = ''1 Main St'', phone = None,
          email = None, created_at = ''2025-03-01 12:00:00'',
          updated_at = ''2025-03-01 12:00:00''\<rparr>], seq = 1\<rparr> =
   (Sent \<lparr>status = 200,
          rbody = Json (JObj [(''id'', JNum 1),
                              (''name'', JStr ''Acme''),
                              (''address'', JStr ''1 Main St''),
                              (''phone'', JStr ''555-1234''),
                              (''email'', JNull),
                              (''created_at'', JStr ''2025-03-01 12:00:00''),
                              (''updated_at'', JStr ''2025-03-01 12:00:00'')])\<rparr>,
    \<lparr>table = [\<lparr>rowid = 1, name = ''Acme'', address = ''1 Main St'', phone = Some ''555-1234'',
          email = None, created_at = ''2025-03-01 12:00:00'',
          updated_at = ''2025-03-01 12:00:00''\<rparr>], seq = 1\<rparr>)
   \<and> \<not> (updated_at \<lparr>rowid = 1, name = ''Acme'', address = ''1 Main St'', phone = None,
          email = None, created_at = ''2025-03-01 12:00:00'',
          updated_at = ''2025-03-01 12:00:00''\<rparr>
         < updated_at \<lparr>rowid = 1, name = ''Acme'', address = ''1 Main St'', phone = Some ''555-1234'',
          email = None, created_at = ''2025-03-01 12:00:00'',
          updated_at = ''2025-03-01 12:00:00''\<rparr>)"
  by (simp add: put_store_def behind_parseIfXml_def parseIfXml_def set_body_def
      put_store_handler_def body_optional_notEmpty_def notEmpty_def validationResult_def
      unwrap_def db_update_def db_get_def no_faults_def matches_def sendResponse_def
      wants_xml_def store_json_def text_json_def)

text \<open>
  An update whose unwrapped payload holds \<^verbatim>\<open>null\<close> for \<^verbatim>\<open>name\<close> or \<^verbatim>\<open>address\<close> changes
  nothing and is not answered 200: either the validation chain has reported the field,
  or the merge passes \<^verbatim>\<open>null\<close> on and the \<^verbatim>\<open>UPDATE\<close> fails on the \<^verbatim>\<open>NOT NULL\<close> column.
\<close>

lemma put_handler_null_required:
  assumes "put_store_handler env req cs d = (out, d')"
    and "jsprop (unwrap (body req)) ''name'' = Some JNull \<or>
         jsprop (unwrap (body req)) ''address'' = Some JNull"
  shows "d' = d \<and> \<not> (out = Sent r \<and> status r = 200)"
  using assms
  by (auto simp: put_store_handler_def Let_def db_get_def db_update_def status_json_error
      split: option.splits if_splits dest: find_list_ex)

text \<open>
  C10. The merge of the update tests \<^verbatim>\<open>!== undefined\<close>, so a field that the unwrapped
  payload holds with the value \<^verbatim>\<open>null\<close> counts as supplied, and only a field that is left
  out is preserved. For \<^verbatim>\<open>phone\<close> and \<^verbatim>\<open>email\<close>: in an update that is answered 200, one
  that the payload holds as \<^verbatim>\<open>null\<close> is stored as \<^verbatim>\<open>NULL\<close>, and one that it leaves out keeps
  its stored value. For \<^verbatim>\<open>name\<close> and \<^verbatim>\<open>address\<close>: an update that holds one of them as
  \<^verbatim>\<open>null\<close> is not answered 200 and leaves the table as it was, so the stored value is not
  overwritten.
\<close>

theorem null_is_a_value:
  assumes "put_store env req d = (out, d')"
    and "parseIfXml req = Inr req'"
    and "find (matches (id_param req)) (table d) = Some old"
  shows "(jsprop (unwrap (body req')) ''name'' = Some JNull \<or>
          jsprop (unwrap (body req')) ''address'' = Some JNull \<longrightarrow>
            d' = d \<and> \<not> (out = Sent r \<and> status r = 200)) \<and>
         (out = Sent r \<and> status r = 200 \<longrightarrow>
            (\<exists>new. find (matches (id_param req)) (table d') = Some new \<and>
               (jsprop (unwrap (body req')) ''phone'' = Some JNull \<longrightarrow> phone new = None) \<and>
               (jsprop (unwrap (body req')) ''phone'' = None \<longrightarrow> phone new = phone old) \<and>
               (jsprop (unwrap (body req')) ''email'' = Some JNull \<longrightarrow> email new = None) \<and>
               (jsprop (unwrap (body req')) ''email'' = None \<longrightarrow> email new = email old)))"
proof (intro conjI impI)
  assume n: "jsprop (unwrap (body req')) ''name'' = Some JNull \<or>
             jsprop (unwrap (body req')) ''address'' = Some JNull"
  from assms(1,2) obtain cs where "put_store_handler env req' cs d = (out, d')"
    by (auto simp: put_store_def behind_parseIfXml_def)
  from put_handler_null_required [OF this n]
  show "d' = d" and "\<not> (out = Sent r \<and> status r = 200)" by simp_all
next
  assume ok: "out = Sent r \<and> status r = 200"
  with assms(1) have "put_store env req d = (Sent r, d')" and "status r = 200" by simp_all
  from put_store_merged [OF this assms(2,3)]
  show "\<exists>new. find (matches (id_param req)) (table d') = Some new \<and>
               (jsprop (unwrap (body req')) ''phone'' = Some JNull \<longrightarrow> phone new = None) \<and>
               (jsprop (unwrap (body req')) ''phone'' = None \<longrightarrow> phone new = phone old) \<and>
               (jsprop (unwrap (body req')) ''email'' = Some JNull \<longrightarrow> email new = None) \<and>
               (jsprop (unwrap (body req')) ''email'' = None \<longrightarrow> email new = email old)"
    by auto
qed

text \<open>
  \<^verbatim>\<open>PUT /stores/1\<close> with the JSON body \<^verbatim>\<open>{"phone":null}\<close> on a row that has a phone and an
  email: the update is answered 200, and in the table it leaves, the phone is \<^verbatim>\<open>NULL\<close> and
  the email is the one the row had.
\<close>

theorem null_is_a_value_witness:
  "put_store \<lparr>faults = no_faults, now = ''2025-03-01 12:00:05'', bound_text = unbound\<rparr>
     \<lparr>accept = [], id_param = Some 1, body = Parsed (JObj [(''phone'', JNull)])\<rparr>
     \<lparr>table = [\<lparr>rowid = 1, name = ''Acme'', address = ''1 Main St'', phone = Some ''555-1234'',
                email = Some ''a@b.c'', created_at = ''2025-03-01 12:00:00'',
                updated_at = ''2025-03-01 12:00:00''\<rparr>], seq = 1\<rparr> =
   (Sent \<lparr>status = 200,
            rbody = Json (JObj [(''id'', JNum 1),
                         (''name'', JStr ''Acme''),
                         (''address'', JStr ''1 Main St''),
                         (''phone'', JNull),
                         (''email'', JStr ''a@b.c''),
                         (''created_at'', JStr ''2025-03-01 12:00:00''),
                         (''updated_at'', JStr ''2025-03-01 12:00:05'')])\<rparr>,
    \<lparr>table = [\<lparr>rowid = 1, name = ''Acme'', address = ''1 Main St'', phone = None,
                email = Some ''a@b.c'', created_at = ''2025-03-01 12:00:00'',
                updated_at = ''2025-03-01 12:00:05''\<rparr>], seq = 1\<rparr>)
   \<and> (\<exists>new.
        find (matches (Some 1))
          (table (snd (put_store \<lparr>faults = no_faults, now = ''2025-03-01 12:00:05'', bound_text = unbound\<rparr>
             \<lparr>accept = [], id_param = Some 1, body = Parsed (JObj [(''phone'', JNull)])\<rparr>
             \<lparr>table = [\<lparr>rowid = 1, name = ''Acme'', address = ''1 Main St'', phone = Some ''555-1234'',
                email = Some ''a@b.c'', created_at = ''2025-03-01 12:00:00'',
                updated_at = ''2025-03-01 12:00:00''\<rparr>], seq = 1\<rparr>))) = Some new \<and>
        phone new = None \<and> email new = Some ''a@b.c'')"
proof -
  have e: "put_store \<lparr>faults = no_faults, now = ''2025-03-01 12:00:05'', bound_text = unbound\<rparr>
     \<lparr>accept = [], id_param = Some 1, body = Parsed (JObj [(''phone'', JNull)])\<rparr>
     \<lparr>table = [\<lparr>rowid = 1, name = ''Acme'', address = ''1 Main St'', phone = Some ''555-1234'',
                email = Some ''a@b.c'', created_at = ''2025-03-01 12:00:00'',
                updated_at = ''2025-03-01 12:00:00''\<rparr>], seq = 1\<rparr> =
   (Sent \<lparr>status = 200,
            rbody = Json (JObj [(''id'', JNum 1),
                         (''name'', JStr ''Acme''),
                         (''address'', JStr ''1 Main St''),
                         (''phone'', JNull),
                         (''email'', JStr ''a@b.c''),
                         (''created_at'', JStr ''2025-03-01 12:00:00''),
                         (''updated_at'', JStr ''2025-03-01 12:00:05'')])\<rparr>,
    \<lparr>table = [\<lparr>rowid = 1, name = ''Acme'', address = ''1 Main St'', phone = None,
                email = Some ''a@b.c'', created_at = ''2025-03-01 12:00:00'',
                updated_at = ''2025-03-01 12:00:05''\<rparr>], seq = 1\<rparr>)"
    by (simp add: put_store_def behind_parseIfXml_def parseIfXml_def set_body_def
        put_store_handler_def body_optional_notEmpty_def notEmpty_def validationResult_def
        unwrap_def db_update_def db_get_def no_faults_def matches_def sendResponse_def
        wants_xml_def store_json_def text_json_def json_error_def)
  from null_is_a_value [OF e, of
      "\<lparr>accept = [], id_param = Some 1, body = JObj [(''phone'', JNull)]\<rparr>"
      "\<lparr>rowid = 1, name = ''Acme'', address = ''1 Main St'', phone = Some ''555-1234'',
          email = Some ''a@b.c'', created_at = ''2025-03-01 12:00:00'',
          updated_at = ''2025-03-01 12:00:00''\<rparr>"
      "\<lparr>status = 200,
            rbody = Json (JObj [(''id'', JNum 1),
                         (''name'', JStr ''Acme''),
                         (''address'', JStr ''1 Main St''),
                         (''phone'', JNull),
                         (''email'', JStr ''a@b.c''),
                         (''created_at'', JStr ''2025-03-01 12:00:00''),
                         (''updated_at'', JStr ''2025-03-01 12:00:05'')])\<rparr>"] e
  show ?thesis
    by (simp add: parseIfXml_def set_body_def matches_def unwrap_def)
qed

text \<open>
  \<^verbatim>\<open>PUT /stores/1\<close> with the JSON body \<^verbatim>\<open>{"name":null}\<close>, and with
  \<^verbatim>\<open>{"store":{"name":null}}\<close>: the first is answered 400 by the validation chain, the
  second 500 by the failed \<^verbatim>\<open>UPDATE\<close>, and after either the stored name is still
  \<^verbatim>\<open>Acme\<close>, not \<^verbatim>\<open>NULL\<close>.
\<close>

theorem null_name_counterexample:
  "put_store \<lparr>faults = no_faults, now = ''2025-03-01 12:00:05'', bound_text = unbound\<rparr>
     \<lparr>accept = [], id_param = Some 1, body = Parsed (JObj [(''name'', JNull)])\<rparr>
     \<lparr>table = [\<lparr>rowid = 1, name = ''Acme'', address = ''1 Main St'', phone = Some ''555-1234'',
                email = Some ''a@b.c'', created_at = ''2025-03-01 12:00:00'',
                updated_at = ''2025-03-01 12:00:00''\<rparr>], seq = 1\<rparr> =
   (Sent \<lparr>status = 400,
          rbody = JsonErrors [FieldError ''name'' ''name cannot be empty'']\<rparr>,
    \<lparr>table = [\<lparr>rowid = 1, name = ''Acme'', address = ''1 Main St'', phone = Some ''555-1234'',
                email = Some ''a@b.c'', created_at = ''2025-03-01 12:00:00'',
                updated_at = ''2025-03-01 12:00:00''\<rparr>], seq = 1\<rparr>)
   \<and> put_store \<lparr>faults = no_faults, now = ''2025-03-01 12:00:05'', bound_text = unbound\<rparr>
     \<lparr>accept = [], id_param = Some 1,
      body = Parsed (JObj [(''store'', JObj [(''name'', JNull)])])\<rparr>
     \<lparr>table = [\<lparr>rowid = 1, name = ''Acme'', address = ''1 Main St'', phone = Some ''555-1234'',
                email = Some ''a@b.c'', created_at = ''2025-03-01 12:00:00'',
                updated_at = ''2025-03-01 12:00:00''\<rparr>], seq = 1\<rparr> =
   (Sent \<lparr>status = 500, rbody = Json (JObj [(''error'', JStr ''Update failed'')])\<rparr>,
    \<lparr>table = [\<lparr>rowid = 1, name = ''Acme'', address = ''1 Main St'', phone = Some ''555-1234'',
                email = Some ''a@b.c'', created_at = ''2025-03-01 12:00:00'',
                updated_at = ''2025-03-01 12:00:00''\<rparr>], seq = 1\<rparr>)"
  by (simp add: put_store_def behind_parseIfXml_def parseIfXml_def set_body_def
        put_store_handler_def body_optional_notEmpty_def notEmpty_def validationResult_def
        unwrap_def db_update_def db_get_def no_faults_def matches_def sendResponse_def
        wants_xml_def store_json_def text_json_def json_error_def)

text \<open>
  C2. The chains of the update route check \<^verbatim>\<open>name\<close> and \<^verbatim>\<open>address\<close> at the top level of
  the body, where a payload wrapped in a \<^verbatim>\<open>store\<close> field has neither, and the handler
  merges the unwrapped payload. A create followed by an update with the body
  \<^verbatim>\<open>{"store":{"name":""}}\<close> is answered 200 and leaves a row whose \<^verbatim>\<open>name\<close> is the empty
  string.
\<close>

theorem envelope_update_empties_name:
  "put_store \<lparr>faults = no_faults, now = ''2025-03-01 12:00:05'', bound_text = b\<rparr>
     \<lparr>accept = [], id_param = Some 1,
      body = Parsed (JObj [(''store'', JObj [(''name'', JStr [])])])\<rparr>
     (snd (post_stores \<lparr>faults = no_faults, now = ''2025-03-01 12:00:00'', bound_text = b\<rparr>
        \<lparr>accept = [], id_param = None,
         body = Parsed (JObj [(''name'', JStr ''Acme''), (''address'', JStr ''1 Main St'')])\<rparr>
        \<lparr>table = [], seq = 0\<rparr>)) =
   (Sent \<lparr>status = 200,
          rbody = Json (JObj [(''id'', JNum 1),
                              (''name'', JStr []),
                              (''address'', JStr ''1 Main St''),
                              (''phone'', JNull),
                              (''email'', JNull),
                              (''created_at'', JStr ''2025-03-01 12:00:00''),
                              (''updated_at'', JStr ''2025-03-01 12:00:05'')])\<rparr>,
    \<lparr>table = [\<lparr>rowid = 1, name = [], address = ''1 Main St'', phone = None,
          email = None, created_at = ''2025-03-01 12:00:00'',
          updated_at = ''2025-03-01 12:00:05''\<rparr>], seq = 1\<rparr>)"
  by (simp add: post_stores_def put_store_def behind_parseIfXml_def parseIfXml_def set_body_def
      post_stores_handler_def put_store_handler_def body_notEmpty_def body_optional_notEmpty_def
      notEmpty_def validationResult_def unwrap_def db_insert_def db_update_def db_get_def
      next_id_def no_faults_def matches_def sendResponse_def wants_xml_def store_json_def
      text_json_def)

section \<open>Failures\<close>

lemma post_handler_failure:
  assumes "post_stores_handler env req cs d = (Sent r, d')"
    and "status r \<noteq> 201" and "r \<noteq> json_error 500 ''DB fetch failed''"
  shows "d' = d"
  using assms
  by (auto simp: post_stores_handler_def Let_def status_sendResponse
      split: option.splits if_splits prod.splits)

lemma put_handler_failure:
  assumes "put_store_handler env req cs d = (Sent r, d')"
    and "status r \<noteq> 200" and "r \<noteq> json_error 500 ''Fetch after update failed''"
  shows "d' = d"
  using assms
  by (auto simp: put_store_handler_def Let_def status_sendResponse
      split: option.splits if_splits)

text \<open>
  C5. When a create or an update is answered with an error other than the 500 of a
  failed read-back (\<^verbatim>\<open>DB fetch failed\<close> after the insert, \<^verbatim>\<open>Fetch after update failed\<close>
  after the update), the table is as it was before the request.
\<close>

theorem failure_keeps_state:
  assumes "post_stores env req d = (Sent r, d') \<or> put_store env req d = (Sent r, d')"
    and "status r \<noteq> 201" and "status r \<noteq> 200"
    and "r \<noteq> json_error 500 ''DB fetch failed''"
    and "r \<noteq> json_error 500 ''Fetch after update failed''"
  shows "d' = d"
  using assms
  by (auto simp: post_stores_def put_store_def behind_parseIfXml_def
      split: sum.splits dest: post_handler_failure put_handler_failure)

theorem failure_keeps_state_witness:
  "snd (post_stores \<lparr>faults = no_faults, now = ''2025-03-01 12:00:05'', bound_text = unbound\<rparr>
     \<lparr>accept = [], id_param = None, body = Parsed (JObj [(''address'', JStr ''1 Main St'')])\<rparr>
     \<lparr>table = [\<lparr>rowid = 1, name = ''Acme'', address = ''1 Main St'', phone = None,
          email = None, created_at = ''2025-03-01 12:00:00'',
          updated_at = ''2025-03-01 12:00:00''\<rparr>], seq = 1\<rparr>) =
   \<lparr>table = [\<lparr>rowid = 1, name = ''Acme'', address = ''1 Main St'', phone = None,
          email = None, created_at = ''2025-03-01 12:00:00'',
          updated_at = ''2025-03-01 12:00:00''\<rparr>], seq = 1\<rparr>"
  using failure_keeps_state [of
     "\<lparr>faults = no_faults, now = ''2025-03-01 12:00:05'', bound_text = unbound\<rparr>"
     "\<lparr>accept = [], id_param = None, body = Parsed (JObj [(''address'', JStr ''1 Main St'')])\<rparr>"
     "\<lparr>table = [\<lparr>rowid = 1, name = ''Acme'', address = ''1 Main St'', phone = None,
          email = None, created_at = ''2025-03-01 12:00:00'',
          updated_at = ''2025-03-01 12:00:00''\<rparr>], seq = 1\<rparr>"
     "\<lparr>status = 400, rbody = JsonErrors [FieldError ''name'' ''name is required'']\<rparr>"
     "snd (post_stores \<lparr>faults = no_faults, now = ''2025-03-01 12:00:05'', bound_text = unbound\<rparr>
       \<lparr>accept = [], id_param = None, body = Parsed (JObj [(''address'', JStr ''1 Main St'')])\<rparr>
       \<lparr>table = [\<lparr>rowid = 1, name = ''Acme'', address = ''1 Main St'', phone = None,
          email = None, created_at = ''2025-03-01 12:00:00'',
          updated_at = ''2025-03-01 12:00:00''\<rparr>], seq = 1\<rparr>)"]
  by (simp add: post_stores_def behind_parseIfXml_def parseIfXml_def set_body_def
      post_stores_handler_def body_notEmpty_def notEmpty_def validationResult_def unwrap_def
      json_error_def)

text \<open>
  A create whose insert succeeds and whose read-back reports a storage error: the
  answer is 500, and the row is in the table.
\<close>

theorem read_back_failure_counterexample:
  "post_stores \<lparr>faults = (\<lambda>k. k = 1), now = ''2025-03-01 12:00:00'', bound_text = unbound\<rparr>
     \<lparr>accept = [], id_param = None,
      body = Parsed (JObj [(''name'', JStr ''Acme''), (''address'', JStr ''1 Main St'')])\<rparr>
     \<lparr>table = [], seq = 0\<rparr> =
   (Sent \<lparr>status = 500, rbody = Json (JObj [(''error'', JStr ''DB fetch failed'')])\<rparr>,
    \<lparr>table = [\<lparr>rowid = 1, name = ''Acme'', address = ''1 Main St'', phone = None,
          email = None, created_at = ''2025-03-01 12:00:00'',
          updated_at = ''2025-03-01 12:00:00''\<rparr>], seq = 1\<rparr>)
   \<and> \<lparr>table = [\<lparr>rowid = 1, name = ''Acme'', address = ''1 Main St'', phone = None,
          email = None, created_at = ''2025-03-01 12:00:00'',
          updated_at = ''2025-03-01 12:00:00''\<rparr>], seq = 1\<rparr> \<noteq> \<lparr>table = [], seq = 0\<rparr>"
  by (simp add: post_stores_def behind_parseIfXml_def parseIfXml_def set_body_def
      post_stores_handler_def body_notEmpty_def notEmpty_def validationResult_def unwrap_def
      db_insert_def db_get_def next_id_def json_error_def)

section \<open>Round trip\<close>

text \<open>
  C3. A row sent as JSON and read back is the row's record of values. Sent as XML and
  read back through \<^verbatim>\<open>parseIfXml\<close>, it has the same fields, every one a string: a text
  column that is not \<^verbatim>\<open>NULL\<close> and a timestamp come back as they are, the integer \<^verbatim>\<open>id\<close> comes
  back as its decimal text, and a \<^verbatim>\<open>NULL\<close> column comes back as the text written for
  \<^verbatim>\<open>null\<close>. The two agree on the string-valued fields only. This is at the level of the
  element tree: the escaping of characters, and text that XML cannot carry, are below it.
\<close>

theorem round_trip_values:
  "round_trip ''application/json'' r = Some (store_json r) \<and>
   round_trip ''application/xml'' r =
     Some (JObj [(''id'', JStr (show_int (int (rowid r)))),
                 (''name'', JStr (name r)),
                 (''address'', JStr (address r)),
                 (''phone'', JStr (js_to_string (text_json (phone r)))),
                 (''email'', JStr (js_to_string (text_json (email r)))),
                 (''created_at'', JStr (created_at r)),
                 (''updated_at'', JStr (updated_at r))])"
proof
  show "round_trip ''application/json'' r = Some (store_json r)"
    by (simp add: round_trip_def sendResponse_def wants_xml_application_json sent_back_def
        parseIfXml_def set_body_def)
next
  have e: "to_elements k (text_json t) = [Node k (js_to_string (text_json t)) []]" for k t
    by (cases t) (simp_all add: text_json_def)
  show "round_trip ''application/xml'' r =
     Some (JObj [(''id'', JStr (show_int (int (rowid r)))),
                 (''name'', JStr (name r)),
                 (''address'', JStr (address r)),
                 (''phone'', JStr (js_to_string (text_json (phone r)))),
                 (''email'', JStr (js_to_string (text_json (email r)))),
                 (''created_at'', JStr (created_at r)),
                 (''updated_at'', JStr (updated_at r))])"
    by (simp add: round_trip_def sendResponse_def wants_xml_application_xml sent_back_def
        parseIfXml_def set_body_def store_json_def or_empty_def e)
qed

text \<open>A row with no \<^verbatim>\<open>NULL\<close> column: the two round trips differ, in the \<^verbatim>\<open>id\<close>.\<close>

theorem round_trip_counterexample:
  "round_trip ''application/xml'' \<lparr>rowid = 1, name = ''Acme'', address = ''1 Main St'', phone = Some ''555-1234'',
      email = Some ''a@b.c'', created_at = ''2025-03-01 12:00:00'',
      updated_at = ''2025-03-01 12:00:00''\<rparr> \<noteq>
   round_trip ''application/json'' \<lparr>rowid = 1, name = ''Acme'', address = ''1 Main St'', phone = Some ''555-1234'',
      email = Some ''a@b.c'', created_at = ''2025-03-01 12:00:00'',
      updated_at = ''2025-03-01 12:00:00''\<rparr>"
  by (simp add: round_trip_def sendResponse_def wants_xml_application_xml
      wants_xml_application_json sent_back_def parseIfXml_def set_body_def store_json_def
      or_empty_def text_json_def)

end
